theory Spec2Isabelle
  imports Main "HOL-Library.Word"
begin

section \<open>Canvas kit binding: data model\<close>

text \<open>
  The embedding follows \<^verbatim>\<open>src/bindings/canvas_kit/tvgWasmCanvasKit.cpp\<close>.
  Native handles and pointers (\<^verbatim>\<open>WGPUInstance\<close>, \<^verbatim>\<open>Canvas*\<close>, \<^verbatim>\<open>uint8_t*\<close>, ...)
  are opaque numbers; \<open>0\<close> is the null handle. The three
  \<^verbatim>\<open>THORVG_*_RASTER_SUPPORT\<close> macros are the fields of a build record.
\<close>

type_synonym handle = nat
type_synonym u32 = "32 word"

record build =
  sw_raster :: bool
  gl_raster :: bool
  wg_raster :: bool

subsection \<open>WebGPU global state\<close>

text \<open>
  The six file-level statics. The field for the static \<^verbatim>\<open>instance\<close> is written
  \<open>instance'\<close>, the plain word being reserved.
\<close>

record wgpu_state =
  instance' :: handle
  adapter :: handle
  device :: handle
  adapterRequested :: bool
  deviceRequested :: bool
  initializationFailed :: bool

definition wgpu_initial :: wgpu_state where
  "wgpu_initial =
     \<lparr>instance' = 0, adapter = 0, device = 0,
      adapterRequested = False, deviceRequested = False, initializationFailed = False\<rparr>"

text \<open>
  The status handed to a request callback. Only the comparison with the success value is
  made by the code; the other values stand for every non-success status of the WebGPU
  header.
\<close>

datatype request_status =
  Status_Success | Status_CallbackCancelled | Status_Unavailable | Status_Error

text \<open>The calls \<^verbatim>\<open>init\<close> and \<^verbatim>\<open>term\<close> make into the WebGPU library, in program order.\<close>

datatype wgpu_call =
    CreateInstance
  | InstanceRequestAdapter handle
  | AdapterRequestDevice handle
  | DeviceRelease handle
  | AdapterRelease handle
  | InstanceRelease handle

subsection \<open>\<^verbatim>\<open>init\<close>, \<^verbatim>\<open>term\<close> and the two completion callbacks\<close>

text \<open>
  \<open>init b created g\<close>: \<open>created\<close> is the handle \<^verbatim>\<open>wgpuCreateInstance\<close> returns if it is
  called. The result is the returned code (0 ready, 1 failed, 2 pending), the library
  calls made, and the statics afterwards.
\<close>

definition init :: "build \<Rightarrow> handle \<Rightarrow> wgpu_state \<Rightarrow> int \<times> wgpu_call list \<times> wgpu_state" where
  "init b created g =
     (if \<not> wg_raster b then (0, [], g)
      else if initializationFailed g then (1, [], g)
      else
        let cs1 = (if instance' g = 0 then [CreateInstance] else []);
            g1 = (if instance' g = 0 then g\<lparr>instance' := created\<rparr> else g)
        in
          if adapter g1 = 0 then
            (if adapterRequested g1 then (2, cs1, g1)
             else (2, cs1 @ [InstanceRequestAdapter (instance' g1)],
                   g1\<lparr>adapterRequested := True\<rparr>))
          else if deviceRequested g1 then ((if device g1 = 0 then 2 else 0), cs1, g1)
          else if device g1 = 0 then
            (2, cs1 @ [AdapterRequestDevice (adapter g1)], g1\<lparr>deviceRequested := True\<rparr>)
          else (0, cs1, g1))"

text \<open>The lambda \<^verbatim>\<open>onAdapterRequestEnded\<close>; its \<^verbatim>\<open>userdata1\<close> is always \<^verbatim>\<open>&adapter\<close>.\<close>

definition onAdapterRequestEnded :: "request_status \<Rightarrow> handle \<Rightarrow> wgpu_state \<Rightarrow> wgpu_state" where
  "onAdapterRequestEnded status a g =
     (if status \<noteq> Status_Success then g\<lparr>initializationFailed := True\<rparr>
      else g\<lparr>adapter := a\<rparr>)"

text \<open>The lambda \<^verbatim>\<open>onDeviceRequestEnded\<close>; its \<^verbatim>\<open>userdata1\<close> is always \<^verbatim>\<open>&device\<close>.\<close>

definition onDeviceRequestEnded :: "request_status \<Rightarrow> handle \<Rightarrow> wgpu_state \<Rightarrow> wgpu_state" where
  "onDeviceRequestEnded status d g =
     (if status \<noteq> Status_Success then g\<lparr>initializationFailed := True\<rparr>
      else g\<lparr>device := d\<rparr>)"

definition term_wg :: "build \<Rightarrow> wgpu_state \<Rightarrow> wgpu_call list \<times> wgpu_state" where
  "term_wg b g =
     (if \<not> wg_raster b then ([], g)
      else
        ((if device g \<noteq> 0 then [DeviceRelease (device g)] else []) @
         (if adapter g \<noteq> 0 then [AdapterRelease (adapter g)] else []) @
         (if instance' g \<noteq> 0 then [InstanceRelease (instance' g)] else []),
         g\<lparr>device := 0, adapter := 0, instance' := 0,
           adapterRequested := False, deviceRequested := False,
           initializationFailed := False\<rparr>))"

subsection \<open>The host environment around the statics\<close>

text \<open>
  The callbacks are registered with \<^verbatim>\<open>WGPUCallbackMode_AllowSpontaneous\<close>: the host runs
  each of them once, at a moment of its own choosing, for a request that was issued. The
  world keeps, beside the statics, how many adapter and device requests are still
  outstanding and the log of every library call made so far. \<^verbatim>\<open>term\<close> releases handles
  but cancels nothing, so the counters survive it.
\<close>

record world =
  gpu :: wgpu_state
  adapterInFlight :: nat
  deviceInFlight :: nat
  issued :: "wgpu_call list"

definition world_initial :: world where
  "world_initial = \<lparr>gpu = wgpu_initial, adapterInFlight = 0, deviceInFlight = 0, issued = []\<rparr>"

fun is_adapter_request :: "wgpu_call \<Rightarrow> bool" where
  "is_adapter_request (InstanceRequestAdapter i) = True"
| "is_adapter_request c = False"

fun is_device_request :: "wgpu_call \<Rightarrow> bool" where
  "is_device_request (AdapterRequestDevice a) = True"
| "is_device_request c = False"

definition call_init :: "build \<Rightarrow> handle \<Rightarrow> world \<Rightarrow> int \<times> world" where
  "call_init b created w =
     (case init b created (gpu w) of
        (r, cs, g') \<Rightarrow>
          (r, w\<lparr>gpu := g',
                adapterInFlight := adapterInFlight w + length (filter is_adapter_request cs),
                deviceInFlight := deviceInFlight w + length (filter is_device_request cs),
                issued := issued w @ cs\<rparr>))"

definition call_term :: "build \<Rightarrow> world \<Rightarrow> world" where
  "call_term b w =
     (case term_wg b (gpu w) of (cs, g') \<Rightarrow> w\<lparr>gpu := g', issued := issued w @ cs\<rparr>)"

datatype event =
    Call_init handle
  | Call_term
  | Adapter_done request_status handle
  | Device_done request_status handle

text \<open>A completion is possible only while a request of its kind is outstanding.\<close>

fun step :: "build \<Rightarrow> world \<Rightarrow> event \<Rightarrow> world option" where
  "step b w (Call_init c) = Some (snd (call_init b c w))"
| "step b w Call_term = Some (call_term b w)"
| "step b w (Adapter_done st a) =
     (if adapterInFlight w = 0 then None
      else Some (w\<lparr>gpu := onAdapterRequestEnded st a (gpu w),
                   adapterInFlight := adapterInFlight w - 1\<rparr>))"
| "step b w (Device_done st d) =
     (if deviceInFlight w = 0 then None
      else Some (w\<lparr>gpu := onDeviceRequestEnded st d (gpu w),
                   deviceInFlight := deviceInFlight w - 1\<rparr>))"

fun run :: "build \<Rightarrow> world \<Rightarrow> event list \<Rightarrow> world option" where
  "run b w [] = Some w"
| "run b w (e # es) = (case step b w e of None \<Rightarrow> None | Some w' \<Rightarrow> run b w' es)"

definition idle :: "world \<Rightarrow> bool" where
  "idle w \<longleftrightarrow> adapterInFlight w = 0 \<and> deviceInFlight w = 0"

text \<open>\<open>term_when_idle b w es\<close>: along the run of \<open>es\<close> from \<open>w\<close>, every \<^verbatim>\<open>term()\<close> is called
  with no request outstanding.\<close>

fun term_when_idle :: "build \<Rightarrow> world \<Rightarrow> event list \<Rightarrow> bool" where
  "term_when_idle b w [] = True"
| "term_when_idle b w (e # es) =
     ((e = Call_term \<longrightarrow> idle w) \<and>
      (case step b w e of None \<Rightarrow> True | Some w' \<Rightarrow> term_when_idle b w' es))"

text \<open>\<^verbatim>\<open>wgpuCreateInstance\<close> hands out a handle that is not null.\<close>

fun creates_instance :: "event \<Rightarrow> bool" where
  "creates_instance (Call_init c) = (c \<noteq> 0)"
| "creates_instance e = True"

definition handles_ordered :: "wgpu_state \<Rightarrow> bool" where
  "handles_ordered g \<longleftrightarrow>
     (adapter g \<noteq> 0 \<longrightarrow> instance' g \<noteq> 0) \<and> (device g \<noteq> 0 \<longrightarrow> adapter g \<noteq> 0)"

text \<open>A request call names a handle that is not null.\<close>

fun request_on_live :: "wgpu_call \<Rightarrow> bool" where
  "request_on_live (InstanceRequestAdapter i) = (i \<noteq> 0)"
| "request_on_live (AdapterRequestDevice a) = (a \<noteq> 0)"
| "request_on_live c = True"

text \<open>
  The invariant of the runs in which \<^verbatim>\<open>term()\<close> is never called over an outstanding
  request: at most one request of each kind is outstanding, and the flags and handles
  agree with what is outstanding.
\<close>

definition disciplined :: "world \<Rightarrow> bool" where
  "disciplined w \<longleftrightarrow>
     adapterInFlight w \<le> 1 \<and> deviceInFlight w \<le> 1 \<and>
     (adapterInFlight w \<noteq> 0 \<longrightarrow>
        instance' (gpu w) \<noteq> 0 \<and> adapter (gpu w) = 0 \<and> adapterRequested (gpu w) \<and>
        deviceInFlight w = 0) \<and>
     (deviceInFlight w \<noteq> 0 \<longrightarrow> device (gpu w) = 0 \<and> deviceRequested (gpu w)) \<and>
     (adapter (gpu w) \<noteq> 0 \<longrightarrow> instance' (gpu w) \<noteq> 0 \<and> adapterRequested (gpu w)) \<and>
     (device (gpu w) \<noteq> 0 \<longrightarrow> deviceRequested (gpu w)) \<and>
     (deviceRequested (gpu w) \<longrightarrow> adapter (gpu w) \<noteq> 0)"

text \<open>Both handles are there, nothing has failed and nothing is outstanding.\<close>

definition settled :: "world \<Rightarrow> bool" where
  "settled w \<longleftrightarrow>
     \<not> initializationFailed (gpu w) \<and> adapter (gpu w) \<noteq> 0 \<and> device (gpu w) \<noteq> 0 \<and> idle w"

section \<open>The engine wrapper \<^verbatim>\<open>ThorVGEngine\<close>\<close>

text \<open>
  The private members of the class. \<^verbatim>\<open>gl_context\<close> is an \<^verbatim>\<open>intptr_t\<close>; \<^verbatim>\<open>width\<close> and
  \<^verbatim>\<open>height\<close> are \<^verbatim>\<open>uint32_t\<close>, and every product of them is the 32-bit product.
\<close>

record engine =
  canvas :: handle
  buffer :: handle
  width :: u32
  height :: u32
  engine_type :: string
  surface :: handle
  gl_context :: int

definition engine_initial :: engine where
  "engine_initial =
     \<lparr>canvas = 0, buffer = 0, width = 0, height = 0, engine_type = [],
      surface = 0, gl_context = 0\<rparr>"

text \<open>
  What the library and the allocator answer during one call of a member function:
  whether \<^verbatim>\<open>Initializer::init()\<close> succeeds, the pointer the \<^verbatim>\<open>gen()\<close> of the chosen canvas
  class returns, the pointer \<^verbatim>\<open>malloc\<close> returns, the context
  \<^verbatim>\<open>emscripten_webgl_create_context\<close> returns and the surface
  \<^verbatim>\<open>wgpuInstanceCreateSurface\<close> returns.
\<close>

record host =
  initializer_ok :: bool
  canvas_gen :: handle
  malloc_ret :: handle
  webgl_context :: int
  created_surface :: handle

text \<open>The calls a member function makes, in program order.\<close>

datatype engine_call =
    InitializerInit
  | TextLoad
  | SwCanvasGen
  | GlCanvasGen
  | WgCanvasGen
  | Malloc u32
  | Free handle
  | DeleteCanvas handle
  | SwTarget handle handle u32 u32 u32
  | WebglCreateContext string
  | WebglMakeContextCurrent int
  | GlTarget handle int u32 u32
  | InstanceCreateSurface handle string
  | WgTarget handle handle handle handle u32 u32
  | CanvasSync handle
  | CanvasRemove handle

text \<open>The result of \<^verbatim>\<open>render()\<close>: \<^verbatim>\<open>val::undefined()\<close> or a typed memory view of a length
  over a pointer.\<close>

datatype val = Undefined | MemoryView nat handle

subsection \<open>\<^verbatim>\<open>createCanvas\<close>\<close>

text \<open>
  \<open>createCanvas b h g engine selector w ht s\<close> returns the \<^verbatim>\<open>uintptr_t\<close> result, the
  calls made and the members afterwards. The statics \<open>g\<close> are read by the \<^verbatim>\<open>"wg"\<close>
  branch. A branch whose macro is undefined is absent; the \<^verbatim>\<open>"sw"\<close> test itself is
  always compiled and only its body is guarded.
\<close>

definition createCanvas ::
  "build \<Rightarrow> host \<Rightarrow> wgpu_state \<Rightarrow> string \<Rightarrow> string \<Rightarrow> u32 \<Rightarrow> u32 \<Rightarrow> engine
     \<Rightarrow> handle \<times> engine_call list \<times> engine" where
  "createCanvas b h g engine selector w ht s =
     (let s0 = s\<lparr>engine_type := engine, width := w, height := ht\<rparr> in
      if \<not> initializer_ok h then (0, [InitializerInit], s0)
      else
        let pre = [InitializerInit, TextLoad] in
        if engine = ''sw'' then
          (if sw_raster b then
             (let s1 = s0\<lparr>canvas := canvas_gen h\<rparr> in
              if canvas s1 = 0 then (0, pre @ [SwCanvasGen], s1)
              else
                let s2 = s1\<lparr>buffer := malloc_ret h\<rparr> in
                if buffer s2 = 0 then
                  (0, pre @ [SwCanvasGen, Malloc (w * ht * 4), DeleteCanvas (canvas s2)],
                   s2\<lparr>canvas := 0\<rparr>)
                else
                  (canvas s2,
                   pre @ [SwCanvasGen, Malloc (w * ht * 4),
                          SwTarget (canvas s2) (buffer s2) w w ht],
                   s2))
           else (canvas s0, pre, s0))
        else if gl_raster b \<and> engine = ''gl'' then
          (let s1 = s0\<lparr>gl_context := webgl_context h\<rparr> in
           if gl_context s1 = 0 then (0, pre @ [WebglCreateContext selector], s1)
           else
             let s2 = s1\<lparr>canvas := canvas_gen h\<rparr>;
                 cs = pre @ [WebglCreateContext selector,
                             WebglMakeContextCurrent (gl_context s1), GlCanvasGen]
             in
               if canvas s2 = 0 then (0, cs, s2)
               else (canvas s2, cs @ [GlTarget (canvas s2) (gl_context s2) w ht], s2))
        else if wg_raster b \<and> engine = ''wg'' then
          (let s1 = s0\<lparr>surface := created_surface h\<rparr>;
               cs1 = pre @ [InstanceCreateSurface (instance' g) selector]
           in
             if surface s1 = 0 then (0, cs1, s1)
             else
               let s2 = s1\<lparr>canvas := canvas_gen h\<rparr> in
               if canvas s2 = 0 then (0, cs1 @ [WgCanvasGen], s2)
               else
                 (canvas s2,
                  cs1 @ [WgCanvasGen,
                         WgTarget (canvas s2) (device g) (instance' g) (surface s2) w ht],
                  s2))
        else (canvas s0, pre, s0))"

subsection \<open>\<^verbatim>\<open>resize\<close>, \<^verbatim>\<open>clear\<close>, \<^verbatim>\<open>render\<close> and the getters\<close>

definition resize ::
  "build \<Rightarrow> host \<Rightarrow> wgpu_state \<Rightarrow> u32 \<Rightarrow> u32 \<Rightarrow> engine \<Rightarrow> bool \<times> engine_call list \<times> engine" where
  "resize b h g w ht s =
     (if canvas s = 0 then (False, [], s)
      else if width s = w \<and> height s = ht then (True, [], s)
      else
        let pre = [CanvasSync (canvas s)];
            s0 = s\<lparr>width := w, height := ht\<rparr>
        in
          if engine_type s0 = ''sw'' then
            (if sw_raster b then
               (let cs = pre @ [Free (buffer s0), Malloc (w * ht * 4)];
                    s1 = s0\<lparr>buffer := malloc_ret h\<rparr>
                in
                  if buffer s1 = 0 then (False, cs, s1)
                  else (True, cs @ [SwTarget (canvas s1) (buffer s1) w w ht], s1))
             else (True, pre, s0))
          else if gl_raster b \<and> engine_type s0 = ''gl'' then
            (True, pre @ [GlTarget (canvas s0) (gl_context s0) w ht], s0)
          else if wg_raster b \<and> engine_type s0 = ''wg'' then
            (True,
             pre @ [WgTarget (canvas s0) (device g) (instance' g) (surface s0) w ht], s0)
          else (True, pre, s0))"

definition clear :: "engine \<Rightarrow> bool \<times> engine_call list \<times> engine" where
  "clear s = (if canvas s = 0 then (False, [], s) else (True, [CanvasRemove (canvas s)], s))"

definition render :: "engine \<Rightarrow> val" where
  "render s =
     (if buffer s \<noteq> 0 \<and> engine_type s = ''sw''
      then MemoryView (unat (width s * height s * 4)) (buffer s)
      else Undefined)"

text \<open>\<^verbatim>\<open>size()\<close>: the object with the properties \<^verbatim>\<open>width\<close> and \<^verbatim>\<open>height\<close>, as a pair.\<close>

definition size_engine :: "engine \<Rightarrow> u32 \<times> u32" where
  "size_engine s = (width s, height s)"

definition getCanvas :: "engine \<Rightarrow> handle" where
  "getCanvas s = canvas s"

definition getEngineType :: "engine \<Rightarrow> string" where
  "getEngineType s = engine_type s"

section \<open>The device initialiser\<close>

subsection \<open>Order of acquisition\<close>

lemma disciplined_initial: "disciplined world_initial"
  by (simp add: disciplined_def world_initial_def wgpu_initial_def)

lemma disciplined_init:
  "disciplined w \<Longrightarrow> c \<noteq> 0 \<Longrightarrow> disciplined (snd (call_init b c w))"
  by (auto simp: disciplined_def call_init_def init_def Let_def)

lemma disciplined_term:
  "disciplined w \<Longrightarrow> idle w \<Longrightarrow> disciplined (call_term b w)"
  by (auto simp: disciplined_def call_term_def term_wg_def idle_def)

lemma disciplined_step:
  "disciplined w \<Longrightarrow> creates_instance e \<Longrightarrow> (e = Call_term \<longrightarrow> idle w) \<Longrightarrow>
   step b w e = Some w' \<Longrightarrow> disciplined w'"
proof (cases e)
  case (Call_init c)
  assume "disciplined w" "creates_instance e" "step b w e = Some w'"
  with Call_init show ?thesis using disciplined_init [of w c b] by simp
next
  case Call_term
  assume "disciplined w" "e = Call_term \<longrightarrow> idle w" "step b w e = Some w'"
  with Call_term show ?thesis using disciplined_term [of w b] by simp
next
  case (Adapter_done st a)
  assume "disciplined w" "step b w e = Some w'"
  with Adapter_done show ?thesis
    by (auto simp: disciplined_def onAdapterRequestEnded_def split: if_splits)
next
  case (Device_done st d)
  assume "disciplined w" "step b w e = Some w'"
  with Device_done show ?thesis
    by (auto simp: disciplined_def onDeviceRequestEnded_def split: if_splits)
qed

lemma disciplined_run:
  "disciplined w \<Longrightarrow> \<forall>e\<in>set es. creates_instance e \<Longrightarrow> term_when_idle b w es \<Longrightarrow>
   run b w es = Some w' \<Longrightarrow> disciplined w'"
proof (induction es arbitrary: w)
  case Nil
  then show ?case by simp
next
  case (Cons e es)
  from Cons.prems(4) obtain w1 where s: "step b w e = Some w1" and r: "run b w1 es = Some w'"
    by (auto split: option.splits)
  from Cons.prems(3) s have i: "e = Call_term \<longrightarrow> idle w" and t: "term_when_idle b w1 es"
    by simp_all
  from Cons.prems(1,2) i s have "disciplined w1"
    using disciplined_step [of w e b w1] by simp
  with Cons.IH [of w1] Cons.prems(2) t r show ?case by simp
qed

lemma disciplined_ordered: "disciplined w \<Longrightarrow> handles_ordered (gpu w)"
  by (auto simp: disciplined_def handles_ordered_def)

lemma live_init:
  "list_all request_on_live (issued w) \<Longrightarrow> c \<noteq> 0 \<Longrightarrow>
   list_all request_on_live (issued (snd (call_init b c w)))"
  by (auto simp: call_init_def init_def Let_def)

lemma live_term:
  "list_all request_on_live (issued w) \<Longrightarrow> list_all request_on_live (issued (call_term b w))"
  by (auto simp: call_term_def term_wg_def)

lemma live_step:
  "list_all request_on_live (issued w) \<Longrightarrow> creates_instance e \<Longrightarrow> step b w e = Some w' \<Longrightarrow>
   list_all request_on_live (issued w')"
  by (cases e) (auto simp: live_init live_term split: if_splits)

lemma live_run:
  "list_all request_on_live (issued w) \<Longrightarrow> \<forall>e\<in>set es. creates_instance e \<Longrightarrow>
   run b w es = Some w' \<Longrightarrow> list_all request_on_live (issued w')"
proof (induction es arbitrary: w)
  case Nil
  then show ?case by simp
next
  case (Cons e es)
  from Cons.prems(3) obtain w1 where s: "step b w e = Some w1" and r: "run b w1 es = Some w'"
    by (auto split: option.splits)
  from Cons.prems(1,2) s have "list_all request_on_live (issued w1)"
    using live_step [of w e b w1] by simp
  with Cons.IH [of w1] Cons.prems(2) r show ?case by simp
qed

text \<open>
  Claim C1, as the code has it. Take any run of \<^verbatim>\<open>init()\<close> calls, \<^verbatim>\<open>term()\<close> calls and
  deliveries of completion callbacks of outstanding requests, from the fresh state, in
  which \<^verbatim>\<open>wgpuCreateInstance\<close> never returns null. Then every adapter request was issued
  on a non-null instance and every device request on a non-null adapter. If moreover
  every \<^verbatim>\<open>term()\<close> of the run was called while no request was outstanding, then in the
  state reached the adapter is non-null only if the instance is, and the device is
  non-null only if the adapter is.
\<close>

theorem handles_acquired_in_order:
  assumes "run b world_initial es = Some w" and "list_all creates_instance es"
  shows "list_all request_on_live (issued w) \<and>
         (term_when_idle b world_initial es \<longrightarrow> handles_ordered (gpu w))"
proof -
  from assms(2) have c: "\<forall>e\<in>set es. creates_instance e"
    by (simp add: list_all_iff)
  have "list_all request_on_live (issued world_initial)"
    by (simp add: world_initial_def)
  with assms(1) c have l: "list_all request_on_live (issued w)"
    using live_run [of world_initial es b w] by simp
  have "term_when_idle b world_initial es \<longrightarrow> disciplined w"
    using assms(1) c disciplined_initial disciplined_run [of world_initial es b w] by simp
  with l show ?thesis by (simp add: disciplined_ordered)
qed


theorem handles_acquired_in_order_witness:
  "run \<lparr>sw_raster = True, gl_raster = True, wg_raster = True\<rparr> world_initial
     [Call_init 1, Adapter_done Status_Success 7, Call_init 2, Device_done Status_Success 9,
      Call_term, Call_init 3, Adapter_done Status_Success 8] =
   Some \<lparr>gpu = \<lparr>instance' = 3, adapter = 8, device = 0, adapterRequested = True,
                 deviceRequested = False, initializationFailed = False\<rparr>,
         adapterInFlight = 0, deviceInFlight = 0,
         issued = [CreateInstance, InstanceRequestAdapter 1, AdapterRequestDevice 7,
                   DeviceRelease 9, AdapterRelease 7, InstanceRelease 1,
                   CreateInstance, InstanceRequestAdapter 3]\<rparr> \<and>
   list_all creates_instance
     [Call_init 1, Adapter_done Status_Success 7, Call_init 2, Device_done Status_Success 9,
      Call_term, Call_init 3, Adapter_done Status_Success 8] \<and>
   term_when_idle \<lparr>sw_raster = True, gl_raster = True, wg_raster = True\<rparr> world_initial
     [Call_init 1, Adapter_done Status_Success 7, Call_init 2, Device_done Status_Success 9,
      Call_term, Call_init 3, Adapter_done Status_Success 8] \<and>
   list_all request_on_live
     [CreateInstance, InstanceRequestAdapter 1, AdapterRequestDevice 7,
      DeviceRelease 9, AdapterRelease 7, InstanceRelease 1,
      CreateInstance, InstanceRequestAdapter 3] \<and>
   handles_ordered \<lparr>instance' = 3, adapter = 8, device = 0, adapterRequested = True,
                     deviceRequested = False, initializationFailed = False\<rparr>"
proof -
  let ?b = "\<lparr>sw_raster = True, gl_raster = True, wg_raster = True\<rparr>"
  let ?es = "[Call_init 1, Adapter_done Status_Success 7, Call_init 2,
              Device_done Status_Success 9, Call_term, Call_init 3,
              Adapter_done Status_Success 8]"
  let ?w = "\<lparr>gpu = \<lparr>instance' = 3, adapter = 8, device = 0, adapterRequested = True,
                 deviceRequested = False, initializationFailed = False\<rparr>,
         adapterInFlight = 0, deviceInFlight = 0,
         issued = [CreateInstance, InstanceRequestAdapter 1, AdapterRequestDevice 7,
                   DeviceRelease 9, AdapterRelease 7, InstanceRelease 1,
                   CreateInstance, InstanceRequestAdapter 3]\<rparr>"
  have r: "run ?b world_initial ?es = Some ?w"
    by (simp add: world_initial_def wgpu_initial_def call_init_def init_def call_term_def
        term_wg_def onAdapterRequestEnded_def onDeviceRequestEnded_def)
  have c: "list_all creates_instance ?es"
    by simp
  have t: "term_when_idle ?b world_initial ?es"
    by (simp add: world_initial_def wgpu_initial_def call_init_def init_def call_term_def
        term_wg_def onAdapterRequestEnded_def onDeviceRequestEnded_def idle_def)
  from handles_acquired_in_order [OF r c] t r c show ?thesis
    by simp
qed

text \<open>
  The claim without the condition on \<^verbatim>\<open>term()\<close> fails: \<^verbatim>\<open>init()\<close> issues the adapter
  request, \<^verbatim>\<open>term()\<close> clears the instance, and the callback of the request, which nothing
  cancels, then stores adapter 7 beside a null instance.
\<close>

theorem handles_ordered_counterexample:
  "run \<lparr>sw_raster = True, gl_raster = True, wg_raster = True\<rparr> world_initial
     [Call_init 1, Call_term, Adapter_done Status_Success 7] =
   Some \<lparr>gpu = \<lparr>instance' = 0, adapter = 7, device = 0, adapterRequested = False,
                 deviceRequested = False, initializationFailed = False\<rparr>,
         adapterInFlight = 0, deviceInFlight = 0,
         issued = [CreateInstance, InstanceRequestAdapter 1, InstanceRelease 1]\<rparr> \<and>
   \<not> handles_ordered \<lparr>instance' = 0, adapter = 7, device = 0, adapterRequested = False,
                       deviceRequested = False, initializationFailed = False\<rparr>"
  by (simp add: world_initial_def wgpu_initial_def call_init_def init_def call_term_def
      term_wg_def onAdapterRequestEnded_def handles_ordered_def)

subsection \<open>Terminal results\<close>

lemma failed_step:
  "initializationFailed (gpu w) \<Longrightarrow> e \<noteq> Call_term \<Longrightarrow> step b w e = Some w' \<Longrightarrow>
   initializationFailed (gpu w')"
  by (cases e)
     (auto simp: call_init_def init_def onAdapterRequestEnded_def onDeviceRequestEnded_def
           split: if_splits)

lemma failed_run:
  "initializationFailed (gpu w) \<Longrightarrow> Call_term \<notin> set es \<Longrightarrow> run b w es = Some w' \<Longrightarrow>
   initializationFailed (gpu w')"
proof (induction es arbitrary: w)
  case Nil
  then show ?case by simp
next
  case (Cons e es)
  from Cons.prems(3) obtain w1 where s: "step b w e = Some w1" and r: "run b w1 es = Some w'"
    by (auto split: option.splits)
  from Cons.prems(1,2) s have "initializationFailed (gpu w1)"
    using failed_step [of w e b w1] by auto
  with Cons.IH [of w1] Cons.prems(2) r show ?case by simp
qed

lemma settled_step:
  "settled w \<Longrightarrow> e \<noteq> Call_term \<Longrightarrow> step b w e = Some w' \<Longrightarrow> settled w'"
  by (cases e) (auto simp: settled_def idle_def call_init_def init_def Let_def split: if_splits)

lemma settled_run:
  "settled w \<Longrightarrow> Call_term \<notin> set es \<Longrightarrow> run b w es = Some w' \<Longrightarrow> settled w'"
proof (induction es arbitrary: w)
  case Nil
  then show ?case by simp
next
  case (Cons e es)
  from Cons.prems(3) obtain w1 where s: "step b w e = Some w1" and r: "run b w1 es = Some w'"
    by (auto split: option.splits)
  from Cons.prems(1,2) s have "settled w1"
    using settled_step [of w e b w1] by auto
  with Cons.IH [of w1] Cons.prems(2) r show ?case by simp
qed

lemma init_failed_iff:
  "wg_raster b \<Longrightarrow> fst (call_init b c w) = 1 \<longleftrightarrow> initializationFailed (gpu w)"
  by (auto simp: call_init_def init_def Let_def)

lemma init_failed_keeps:
  "initializationFailed (gpu w) \<Longrightarrow> initializationFailed (gpu (snd (call_init b c w)))"
  by (auto simp: call_init_def init_def Let_def)

lemma init_ready_settled:
  "wg_raster b \<Longrightarrow> idle w \<Longrightarrow> fst (call_init b c w) = 0 \<Longrightarrow> settled (snd (call_init b c w))"
  by (auto simp: call_init_def init_def Let_def settled_def idle_def split: if_splits)

lemma settled_init_ready:
  "wg_raster b \<Longrightarrow> settled w \<Longrightarrow> fst (call_init b c w) = 0"
  by (auto simp: call_init_def init_def Let_def settled_def)

text \<open>
  Claim C2, as the code has it. With the GPU backend compiled in: once \<^verbatim>\<open>init()\<close> has
  returned 1, every later \<^verbatim>\<open>init()\<close> with no \<^verbatim>\<open>term()\<close> in between returns 1, whatever
  callbacks are delivered in between; and once \<^verbatim>\<open>init()\<close> has returned 0 at a moment
  when no request was outstanding, every later \<^verbatim>\<open>init()\<close> with no \<^verbatim>\<open>term()\<close> in between
  returns 0.
\<close>

theorem terminal_result_sticky:
  assumes "wg_raster b" and "call_init b c w = (r, w1)" and "r = 1 \<or> (r = 0 \<and> idle w)"
    and "Call_term \<notin> set es" and "run b w1 es = Some w2"
  shows "fst (call_init b c' w2) = r"
proof -
  from assms(2) have r: "fst (call_init b c w) = r" and w1: "snd (call_init b c w) = w1"
    by simp_all
  from assms(3) show ?thesis
  proof
    assume one: "r = 1"
    with r assms(1) have "initializationFailed (gpu w)"
      by (simp add: init_failed_iff)
    then have "initializationFailed (gpu w1)"
      using init_failed_keeps [of w b c] w1 by simp
    with assms(4,5) have "initializationFailed (gpu w2)"
      using failed_run [of w1 es b w2] by simp
    with assms(1) one show ?thesis
      by (simp add: init_failed_iff)
  next
    assume "r = 0 \<and> idle w"
    then have zero: "r = 0" and i: "idle w"
      by simp_all
    from assms(1) i r zero have "settled w1"
      using init_ready_settled [of b w c] w1 by simp
    with assms(4,5) have "settled w2"
      using settled_run [of w1 es b w2] by simp
    with assms(1) zero show ?thesis
      by (simp add: settled_init_ready)
  qed
qed

theorem terminal_result_sticky_witness:
  "wg_raster \<lparr>sw_raster = True, gl_raster = True, wg_raster = True\<rparr> \<and>
   call_init \<lparr>sw_raster = True, gl_raster = True, wg_raster = True\<rparr> 3
     \<lparr>gpu = \<lparr>instance' = 1, adapter = 7, device = 9, adapterRequested = True,
             deviceRequested = True, initializationFailed = False\<rparr>,
      adapterInFlight = 0, deviceInFlight = 0,
      issued = [CreateInstance, InstanceRequestAdapter 1, AdapterRequestDevice 7]\<rparr> =
   (0, \<lparr>gpu = \<lparr>instance' = 1, adapter = 7, device = 9, adapterRequested = True,
               deviceRequested = True, initializationFailed = False\<rparr>,
        adapterInFlight = 0, deviceInFlight = 0,
        issued = [CreateInstance, InstanceRequestAdapter 1, AdapterRequestDevice 7]\<rparr>) \<and>
   idle \<lparr>gpu = \<lparr>instance' = 1, adapter = 7, device = 9, adapterRequested = True,
               deviceRequested = True, initializationFailed = False\<rparr>,
         adapterInFlight = 0, deviceInFlight = 0,
         issued = [CreateInstance, InstanceRequestAdapter 1, AdapterRequestDevice 7]\<rparr> \<and>
   Call_term \<notin> set [Call_init 4, Call_init 5] \<and>
   run \<lparr>sw_raster = True, gl_raster = True, wg_raster = True\<rparr>
     \<lparr>gpu = \<lparr>instance' = 1, adapter = 7, device = 9, adapterRequested = True,
             deviceRequested = True, initializationFailed = False\<rparr>,
      adapterInFlight = 0, deviceInFlight = 0,
      issued = [CreateInstance, InstanceRequestAdapter 1, AdapterRequestDevice 7]\<rparr>
     [Call_init 4, Call_init 5] =
   Some \<lparr>gpu = \<lparr>instance' = 1, adapter = 7, device = 9, adapterRequested = True,
                 deviceRequested = True, initializationFailed = False\<rparr>,
         adapterInFlight = 0, deviceInFlight = 0,
         issued = [CreateInstance, InstanceRequestAdapter 1, AdapterRequestDevice 7]\<rparr> \<and>
   fst (call_init \<lparr>sw_raster = True, gl_raster = True, wg_raster = True\<rparr> 6
     \<lparr>gpu = \<lparr>instance' = 1, adapter = 7, device = 9, adapterRequested = True,
             deviceRequested = True, initializationFailed = False\<rparr>,
      adapterInFlight = 0, deviceInFlight = 0,
      issued = [CreateInstance, InstanceRequestAdapter 1, AdapterRequestDevice 7]\<rparr>) = 0"
proof -
  let ?b = "\<lparr>sw_raster = True, gl_raster = True, wg_raster = True\<rparr>"
  let ?w = "\<lparr>gpu = \<lparr>instance' = 1, adapter = 7, device = 9, adapterRequested = True,
                 deviceRequested = True, initializationFailed = False\<rparr>,
            adapterInFlight = 0, deviceInFlight = 0,
            issued = [CreateInstance, InstanceRequestAdapter 1, AdapterRequestDevice 7]\<rparr>"
  have b: "wg_raster ?b"
    by simp
  have i: "call_init ?b 3 ?w = (0, ?w)"
    by (simp add: call_init_def init_def)
  have d: "(0::int) = 1 \<or> ((0::int) = 0 \<and> idle ?w)"
    by (simp add: idle_def)
  have t: "Call_term \<notin> set [Call_init 4, Call_init 5]"
    by simp
  have r: "run ?b ?w [Call_init 4, Call_init 5] = Some ?w"
    by (simp add: call_init_def init_def)
  from terminal_result_sticky [OF b i d t r, of 6] b i d t r show ?thesis
    by simp
qed

text \<open>
  Without the condition on outstanding requests the second half fails. Two adapter
  requests are outstanding after \<^verbatim>\<open>init(); term(); init()\<close>. The first completes with
  adapter 5, the device request completes with device 9 and \<^verbatim>\<open>init()\<close> returns 0; then the
  second adapter request completes with an error status and the next \<^verbatim>\<open>init()\<close>, with no
  \<^verbatim>\<open>term()\<close> since the 0, returns 1.
\<close>

theorem terminal_result_counterexample:
  "run \<lparr>sw_raster = True, gl_raster = True, wg_raster = True\<rparr> world_initial
     [Call_init 1, Call_term, Call_init 2, Adapter_done Status_Success 5, Call_init 3,
      Device_done Status_Success 9] =
   Some \<lparr>gpu = \<lparr>instance' = 2, adapter = 5, device = 9, adapterRequested = True,
                 deviceRequested = True, initializationFailed = False\<rparr>,
         adapterInFlight = 1, deviceInFlight = 0,
         issued = [CreateInstance, InstanceRequestAdapter 1, InstanceRelease 1,
                   CreateInstance, InstanceRequestAdapter 2, AdapterRequestDevice 5]\<rparr> \<and>
   call_init \<lparr>sw_raster = True, gl_raster = True, wg_raster = True\<rparr> 4
     \<lparr>gpu = \<lparr>instance' = 2, adapter = 5, device = 9, adapterRequested = True,
             deviceRequested = True, initializationFailed = False\<rparr>,
      adapterInFlight = 1, deviceInFlight = 0,
      issued = [CreateInstance, InstanceRequestAdapter 1, InstanceRelease 1,
                CreateInstance, InstanceRequestAdapter 2, AdapterRequestDevice 5]\<rparr> =
   (0, \<lparr>gpu = \<lparr>instance' = 2, adapter = 5, device = 9, adapterRequested = True,
               deviceRequested = True, initializationFailed = False\<rparr>,
        adapterInFlight = 1, deviceInFlight = 0,
        issued = [CreateInstance, InstanceRequestAdapter 1, InstanceRelease 1,
                  CreateInstance, InstanceRequestAdapter 2, AdapterRequestDevice 5]\<rparr>) \<and>
   run \<lparr>sw_raster = True, gl_raster = True, wg_raster = True\<rparr>
     \<lparr>gpu = \<lparr>instance' = 2, adapter = 5, device = 9, adapterRequested = True,
             deviceRequested = True, initializationFailed = False\<rparr>,
      adapterInFlight = 1, deviceInFlight = 0,
      issued = [CreateInstance, InstanceRequestAdapter 1, InstanceRelease 1,
                CreateInstance, InstanceRequestAdapter 2, AdapterRequestDevice 5]\<rparr>
     [Adapter_done Status_Error 0] =
   Some \<lparr>gpu = \<lparr>instance' = 2, adapter = 5, device = 9, adapterRequested = True,
                 deviceRequested = True, initializationFailed = True\<rparr>,
         adapterInFlight = 0, deviceInFlight = 0,
         issued = [CreateInstance, InstanceRequestAdapter 1, InstanceRelease 1,
                   CreateInstance, InstanceRequestAdapter 2, AdapterRequestDevice 5]\<rparr> \<and>
   fst (call_init \<lparr>sw_raster = True, gl_raster = True, wg_raster = True\<rparr> 4
     \<lparr>gpu = \<lparr>instance' = 2, adapter = 5, device = 9, adapterRequested = True,
             deviceRequested = True, initializationFailed = True\<rparr>,
      adapterInFlight = 0, deviceInFlight = 0,
      issued = [CreateInstance, InstanceRequestAdapter 1, InstanceRelease 1,
                CreateInstance, InstanceRequestAdapter 2, AdapterRequestDevice 5]\<rparr>) = 1"
  by (simp add: world_initial_def wgpu_initial_def call_init_def init_def call_term_def
      term_wg_def onAdapterRequestEnded_def onDeviceRequestEnded_def)

text \<open>
  In the runs of claim C1 that keep \<^verbatim>\<open>term()\<close> away from outstanding requests, a result 0
  is always returned with nothing outstanding.
\<close>

lemma ready_when_disciplined_idle:
  "wg_raster b \<Longrightarrow> disciplined w \<Longrightarrow> fst (call_init b c w) = 0 \<Longrightarrow> idle w"
  by (auto simp: call_init_def init_def Let_def disciplined_def idle_def split: if_splits)

lemma ready_after_disciplined_run:
  assumes "wg_raster b" and "run b world_initial es = Some w"
    and "list_all creates_instance es" and "term_when_idle b world_initial es"
    and "fst (call_init b c w) = 0"
  shows "idle w"
proof -
  from assms(3) have "\<forall>e\<in>set es. creates_instance e"
    by (simp add: list_all_iff)
  with assms(2,4) have "disciplined w"
    using disciplined_initial disciplined_run [of world_initial es b w] by simp
  with assms(1,5) show ?thesis
    using ready_when_disciplined_idle [of b w c] by simp
qed

subsection \<open>Teardown\<close>

text \<open>
  Claim C3. With the GPU backend compiled in, the statics after \<^verbatim>\<open>term()\<close> are the fresh
  ones: the three handles null and the three flags false. \<^verbatim>\<open>term()\<close> on the fresh
  statics releases nothing and leaves them fresh, and so does a second \<^verbatim>\<open>term()\<close> right
  after a first.
\<close>

theorem term_resets_state:
  assumes "wg_raster b"
  shows "snd (term_wg b g) = wgpu_initial \<and>
         term_wg b wgpu_initial = ([], wgpu_initial) \<and>
         term_wg b (snd (term_wg b g)) = ([], wgpu_initial)"
  using assms by (simp add: term_wg_def wgpu_initial_def)


theorem term_resets_state_witness:
  "wg_raster \<lparr>sw_raster = True, gl_raster = True, wg_raster = True\<rparr> \<and>
   snd (term_wg \<lparr>sw_raster = True, gl_raster = True, wg_raster = True\<rparr>
          \<lparr>instance' = 1, adapter = 7, device = 9, adapterRequested = True,
           deviceRequested = True, initializationFailed = True\<rparr>) = wgpu_initial \<and>
   term_wg \<lparr>sw_raster = True, gl_raster = True, wg_raster = True\<rparr> wgpu_initial =
     ([], wgpu_initial) \<and>
   term_wg \<lparr>sw_raster = True, gl_raster = True, wg_raster = True\<rparr>
     (snd (term_wg \<lparr>sw_raster = True, gl_raster = True, wg_raster = True\<rparr>
             \<lparr>instance' = 1, adapter = 7, device = 9, adapterRequested = True,
              deviceRequested = True, initializationFailed = True\<rparr>)) =
     ([], wgpu_initial)"
  using term_resets_state
    [of "\<lparr>sw_raster = True, gl_raster = True, wg_raster = True\<rparr>"
        "\<lparr>instance' = 1, adapter = 7, device = 9, adapterRequested = True,
          deviceRequested = True, initializationFailed = True\<rparr>"]
  by simp

section \<open>The render target manager\<close>

subsection \<open>Creation\<close>

text \<open>
  Claim C10. \<^verbatim>\<open>createCanvas\<close> stores the requested backend string, width and height
  before anything else, so whatever the outcome (also a result 0 after a failed engine
  setup, an unknown backend name or a failed allocation) \<^verbatim>\<open>getEngineType()\<close> then returns
  the requested string and \<^verbatim>\<open>size()\<close> the requested width and height.
\<close>

theorem create_records_request:
  "getEngineType (snd (snd (createCanvas b h g engine sel w ht s))) = engine \<and>
   size_engine (snd (snd (createCanvas b h g engine sel w ht s))) = (w, ht)"
  by (simp add: createCanvas_def Let_def getEngineType_def size_engine_def)

text \<open>
  Claim C5. With the software backend compiled in and the engine set up: if
  \<^verbatim>\<open>SwCanvas::gen()\<close> or \<^verbatim>\<open>malloc\<close> returns null, \<^verbatim>\<open>createCanvas("sw", ...)\<close> returns 0 and
  leaves the canvas member null. When the canvas was created and \<^verbatim>\<open>malloc\<close> failed, the
  canvas is deleted and the buffer member is null; when the canvas creation failed,
  \<^verbatim>\<open>malloc\<close> is not called and the buffer member is as before.
\<close>

theorem create_sw_allocation_failure:
  assumes "sw_raster b" and "initializer_ok h" and "canvas_gen h = 0 \<or> malloc_ret h = 0"
  shows "fst (createCanvas b h g ''sw'' sel w ht s) = 0 \<and>
         canvas (snd (snd (createCanvas b h g ''sw'' sel w ht s))) = 0 \<and>
         buffer (snd (snd (createCanvas b h g ''sw'' sel w ht s))) =
           (if canvas_gen h = 0 then buffer s else 0) \<and>
         fst (snd (createCanvas b h g ''sw'' sel w ht s)) =
           (if canvas_gen h = 0 then [InitializerInit, TextLoad, SwCanvasGen]
            else [InitializerInit, TextLoad, SwCanvasGen, Malloc (w * ht * 4),
                  DeleteCanvas (canvas_gen h)])"
  using assms by (auto simp: createCanvas_def Let_def)

theorem create_sw_allocation_failure_witness:
  "sw_raster \<lparr>sw_raster = True, gl_raster = True, wg_raster = True\<rparr> \<and>
   initializer_ok \<lparr>initializer_ok = True, canvas_gen = 50, malloc_ret = 0, webgl_context = 0,
      created_surface = 0\<rparr> \<and>
   malloc_ret \<lparr>initializer_ok = True, canvas_gen = 50, malloc_ret = 0, webgl_context = 0,
      created_surface = 0\<rparr> = 0 \<and>
   createCanvas \<lparr>sw_raster = True, gl_raster = True, wg_raster = True\<rparr>
     \<lparr>initializer_ok = True, canvas_gen = 50, malloc_ret = 0, webgl_context = 0,
      created_surface = 0\<rparr>
     wgpu_initial ''sw'' ''#c'' 2 2 engine_initial =
   (0,
    [InitializerInit, TextLoad, SwCanvasGen, Malloc 16, DeleteCanvas 50],
    \<lparr>canvas = 0, buffer = 0, width = 2, height = 2, engine_type = ''sw'',
     surface = 0, gl_context = 0\<rparr>) \<and>
   canvas_gen \<lparr>initializer_ok = True, canvas_gen = 0, malloc_ret = 100, webgl_context = 0,
      created_surface = 0\<rparr> = 0 \<and>
   createCanvas \<lparr>sw_raster = True, gl_raster = True, wg_raster = True\<rparr>
     \<lparr>initializer_ok = True, canvas_gen = 0, malloc_ret = 100, webgl_context = 0,
      created_surface = 0\<rparr>
     wgpu_initial ''sw'' ''#c'' 2 2 engine_initial =
   (0,
    [InitializerInit, TextLoad, SwCanvasGen],
    \<lparr>canvas = 0, buffer = 0, width = 2, height = 2, engine_type = ''sw'',
     surface = 0, gl_context = 0\<rparr>)"
proof -
  let ?b = "\<lparr>sw_raster = True, gl_raster = True, wg_raster = True\<rparr>"
  let ?h1 = "\<lparr>initializer_ok = True, canvas_gen = 50, malloc_ret = 0, webgl_context = 0,
      created_surface = 0\<rparr>"
  let ?h2 = "\<lparr>initializer_ok = True, canvas_gen = 0, malloc_ret = 100, webgl_context = 0,
      created_surface = 0\<rparr>"
  have b: "sw_raster ?b"
    by simp
  have i1: "initializer_ok ?h1" and i2: "initializer_ok ?h2"
    by simp_all
  have f1: "canvas_gen ?h1 = 0 \<or> malloc_ret ?h1 = 0" and f2: "canvas_gen ?h2 = 0 \<or> malloc_ret ?h2 = 0"
    by simp_all
  from create_sw_allocation_failure [OF b i1 f1, of wgpu_initial "''#c''" 2 2 engine_initial]
  have c1: "createCanvas ?b ?h1 wgpu_initial ''sw'' ''#c'' 2 2 engine_initial =
    (0, [InitializerInit, TextLoad, SwCanvasGen, Malloc 16, DeleteCanvas 50],
     \<lparr>canvas = 0, buffer = 0, width = 2, height = 2, engine_type = ''sw'',
      surface = 0, gl_context = 0\<rparr>)"
    by (simp add: createCanvas_def engine_initial_def)
  from create_sw_allocation_failure [OF b i2 f2, of wgpu_initial "''#c''" 2 2 engine_initial]
  have c2: "createCanvas ?b ?h2 wgpu_initial ''sw'' ''#c'' 2 2 engine_initial =
    (0, [InitializerInit, TextLoad, SwCanvasGen],
     \<lparr>canvas = 0, buffer = 0, width = 2, height = 2, engine_type = ''sw'',
      surface = 0, gl_context = 0\<rparr>)"
    by (simp add: createCanvas_def engine_initial_def)
  from c1 c2 show ?thesis
    by simp
qed

text \<open>
  When no compiled-in branch matches the backend string, \<^verbatim>\<open>createCanvas\<close> touches none of
  the four resource members and returns the canvas member as it was (or 0 when the engine
  setup failed).
\<close>

lemma create_unknown_unchanged:
  assumes "engine \<notin> {''sw'', ''gl'', ''wg''} \<or> (engine = ''sw'' \<and> \<not> sw_raster b) \<or>
           (engine = ''gl'' \<and> \<not> gl_raster b) \<or> (engine = ''wg'' \<and> \<not> wg_raster b)"
  shows "canvas (snd (snd (createCanvas b h g engine sel w ht s))) = canvas s \<and>
         buffer (snd (snd (createCanvas b h g engine sel w ht s))) = buffer s \<and>
         gl_context (snd (snd (createCanvas b h g engine sel w ht s))) = gl_context s \<and>
         surface (snd (snd (createCanvas b h g engine sel w ht s))) = surface s \<and>
         set (fst (snd (createCanvas b h g engine sel w ht s))) \<subseteq> {InitializerInit, TextLoad} \<and>
         fst (createCanvas b h g engine sel w ht s) = (if initializer_ok h then canvas s else 0)"
  using assms by (auto simp: createCanvas_def Let_def)

text \<open>
  Claim C9. On a manager that holds no target (canvas, buffer, GL context and surface
  all null), a backend string outside \<^verbatim>\<open>"sw"\<close>, \<^verbatim>\<open>"gl"\<close>, \<^verbatim>\<open>"wg"\<close>, or one whose backend
  is not compiled in, makes \<^verbatim>\<open>createCanvas\<close> return 0; the four members are still null
  afterwards and the only calls made are the engine setup and the font load.
\<close>

theorem create_unknown_backend:
  assumes "engine \<notin> {''sw'', ''gl'', ''wg''} \<or> (engine = ''sw'' \<and> \<not> sw_raster b) \<or>
           (engine = ''gl'' \<and> \<not> gl_raster b) \<or> (engine = ''wg'' \<and> \<not> wg_raster b)"
    and "canvas s = 0" and "buffer s = 0" and "gl_context s = 0" and "surface s = 0"
  shows "fst (createCanvas b h g engine sel w ht s) = 0 \<and>
         canvas (snd (snd (createCanvas b h g engine sel w ht s))) = 0 \<and>
         buffer (snd (snd (createCanvas b h g engine sel w ht s))) = 0 \<and>
         gl_context (snd (snd (createCanvas b h g engine sel w ht s))) = 0 \<and>
         surface (snd (snd (createCanvas b h g engine sel w ht s))) = 0 \<and>
         set (fst (snd (createCanvas b h g engine sel w ht s))) \<subseteq> {InitializerInit, TextLoad}"
  using create_unknown_unchanged [OF assms(1), of h g sel w ht s] assms(2-5)
  by simp

theorem create_unknown_backend_witness:
  "''xyz'' \<notin> {''sw'', ''gl'', ''wg''} \<and>
   canvas engine_initial = 0 \<and> buffer engine_initial = 0 \<and>
   gl_context engine_initial = 0 \<and> surface engine_initial = 0 \<and>
   createCanvas \<lparr>sw_raster = True, gl_raster = True, wg_raster = True\<rparr>
     \<lparr>initializer_ok = True, canvas_gen = 50, malloc_ret = 100, webgl_context = 0,
      created_surface = 0\<rparr>
     wgpu_initial ''xyz'' ''#c'' 2 2 engine_initial =
   (0,
    [InitializerInit, TextLoad],
    \<lparr>canvas = 0, buffer = 0, width = 2, height = 2, engine_type = ''xyz'',
     surface = 0, gl_context = 0\<rparr>)"
proof -
  let ?b = "\<lparr>sw_raster = True, gl_raster = True, wg_raster = True\<rparr>"
  let ?h = "\<lparr>initializer_ok = True, canvas_gen = 50, malloc_ret = 100, webgl_context = 0,
      created_surface = 0\<rparr>"
  have e: "''xyz'' \<notin> {''sw'', ''gl'', ''wg''} \<or> (''xyz'' = ''sw'' \<and> \<not> sw_raster ?b) \<or>
           (''xyz'' = ''gl'' \<and> \<not> gl_raster ?b) \<or> (''xyz'' = ''wg'' \<and> \<not> wg_raster ?b)"
    by simp
  have z: "canvas engine_initial = 0" "buffer engine_initial = 0"
    "gl_context engine_initial = 0" "surface engine_initial = 0"
    by (simp_all add: engine_initial_def)
  from create_unknown_backend [OF e z, of ?h wgpu_initial "''#c''" 2 2]
  have "createCanvas ?b ?h wgpu_initial ''xyz'' ''#c'' 2 2 engine_initial =
    (0, [InitializerInit, TextLoad],
     \<lparr>canvas = 0, buffer = 0, width = 2, height = 2, engine_type = ''xyz'',
      surface = 0, gl_context = 0\<rparr>)"
    by (simp add: createCanvas_def engine_initial_def)
  with z show ?thesis
    by simp
qed

subsection \<open>Resizing\<close>

text \<open>
  Claim C7. On a manager with a created target, \<^verbatim>\<open>resize\<close> to the recorded width and
  height returns true, makes no call at all (no sync, no free, no allocation, no
  retargeting) and leaves every member as it was.
\<close>

theorem resize_same_size:
  assumes "canvas s \<noteq> 0"
  shows "resize b h g (width s) (height s) s = (True, [], s)"
  using assms by (simp add: resize_def)

theorem resize_same_size_witness:
  "canvas \<lparr>canvas = 50, buffer = 100, width = 2, height = 2, engine_type = ''sw'',
      surface = 0, gl_context = 0\<rparr> \<noteq> 0 \<and>
   resize \<lparr>sw_raster = True, gl_raster = True, wg_raster = True\<rparr>
     \<lparr>initializer_ok = True, canvas_gen = 50, malloc_ret = 0, webgl_context = 0,
      created_surface = 0\<rparr>
     wgpu_initial 2 2
     \<lparr>canvas = 50, buffer = 100, width = 2, height = 2, engine_type = ''sw'',
      surface = 0, gl_context = 0\<rparr> =
   (True, [],
    \<lparr>canvas = 50, buffer = 100, width = 2, height = 2, engine_type = ''sw'',
      surface = 0, gl_context = 0\<rparr>)"
  using resize_same_size
    [of "\<lparr>canvas = 50, buffer = 100, width = 2, height = 2, engine_type = ''sw'',
      surface = 0, gl_context = 0\<rparr>"
        "\<lparr>sw_raster = True, gl_raster = True, wg_raster = True\<rparr>"
        "\<lparr>initializer_ok = True, canvas_gen = 50, malloc_ret = 0, webgl_context = 0,
      created_surface = 0\<rparr>"
        wgpu_initial]
  by simp

text \<open>
  Claim C4, as the code has it. On a manager with a created software target, when
  \<^verbatim>\<open>resize(w, h)\<close> to other dimensions fails because \<^verbatim>\<open>malloc\<close> returns null, the result is
  false, the buffer member is null, the canvas member is as before, and the recorded
  width and height are the requested \<open>w\<close> and \<open>h\<close>: both are assigned before the buffer
  is reallocated.
\<close>

theorem resize_failure_state:
  assumes "sw_raster b" and "canvas s \<noteq> 0" and "engine_type s = ''sw''"
    and "(w, ht) \<noteq> (width s, height s)" and "malloc_ret h = 0"
  shows "fst (resize b h g w ht s) = False \<and>
         size_engine (snd (snd (resize b h g w ht s))) = (w, ht) \<and>
         buffer (snd (snd (resize b h g w ht s))) = 0 \<and>
         canvas (snd (snd (resize b h g w ht s))) = canvas s"
  using assms by (auto simp: resize_def size_engine_def Let_def)

theorem resize_failure_state_witness:
  "sw_raster \<lparr>sw_raster = True, gl_raster = True, wg_raster = True\<rparr> \<and>
   canvas \<lparr>canvas = 50, buffer = 100, width = 2, height = 2, engine_type = ''sw'',
           surface = 0, gl_context = 0\<rparr> \<noteq> 0 \<and>
   engine_type \<lparr>canvas = 50, buffer = 100, width = 2, height = 2, engine_type = ''sw'',
                surface = 0, gl_context = 0\<rparr> = ''sw'' \<and>
   (3 :: u32, 3 :: u32) \<noteq>
     (width \<lparr>canvas = 50, buffer = 100, width = 2, height = 2, engine_type = ''sw'',
             surface = 0, gl_context = 0\<rparr>,
      height \<lparr>canvas = 50, buffer = 100, width = 2, height = 2, engine_type = ''sw'',
              surface = 0, gl_context = 0\<rparr>) \<and>
   malloc_ret \<lparr>initializer_ok = True, canvas_gen = 50, malloc_ret = 0, webgl_context = 0,
               created_surface = 0\<rparr> = 0 \<and>
   fst (resize \<lparr>sw_raster = True, gl_raster = True, wg_raster = True\<rparr>
          \<lparr>initializer_ok = True, canvas_gen = 50, malloc_ret = 0, webgl_context = 0,
           created_surface = 0\<rparr>
          wgpu_initial 3 3
          \<lparr>canvas = 50, buffer = 100, width = 2, height = 2, engine_type = ''sw'',
           surface = 0, gl_context = 0\<rparr>) = False \<and>
   size_engine (snd (snd (resize \<lparr>sw_raster = True, gl_raster = True, wg_raster = True\<rparr>
          \<lparr>initializer_ok = True, canvas_gen = 50, malloc_ret = 0, webgl_context = 0,
           created_surface = 0\<rparr>
          wgpu_initial 3 3
          \<lparr>canvas = 50, buffer = 100, width = 2, height = 2, engine_type = ''sw'',
           surface = 0, gl_context = 0\<rparr>))) = (3, 3)"
  using resize_failure_state
    [of "\<lparr>sw_raster = True, gl_raster = True, wg_raster = True\<rparr>"
        "\<lparr>canvas = 50, buffer = 100, width = 2, height = 2, engine_type = ''sw'',
          surface = 0, gl_context = 0\<rparr>"
        3 3
        "\<lparr>initializer_ok = True, canvas_gen = 50, malloc_ret = 0, webgl_context = 0,
          created_surface = 0\<rparr>"
        wgpu_initial]
  by simp

text \<open>
  The claim that the recorded dimensions stay at their previous values fails: a 2 by 2
  software target, resized to 3 by 3 with the reallocation failing, reports 3 by 3.
\<close>

theorem resize_failure_counterexample:
  "createCanvas \<lparr>sw_raster = True, gl_raster = True, wg_raster = True\<rparr>
     \<lparr>initializer_ok = True, canvas_gen = 50, malloc_ret = 100, webgl_context = 0,
      created_surface = 0\<rparr>
     wgpu_initial ''sw'' ''#c'' 2 2 engine_initial =
   (50,
    [InitializerInit, TextLoad, SwCanvasGen, Malloc 16, SwTarget 50 100 2 2 2],
    \<lparr>canvas = 50, buffer = 100, width = 2, height = 2, engine_type = ''sw'',
     surface = 0, gl_context = 0\<rparr>) \<and>
   resize \<lparr>sw_raster = True, gl_raster = True, wg_raster = True\<rparr>
     \<lparr>initializer_ok = True, canvas_gen = 50, malloc_ret = 0, webgl_context = 0,
      created_surface = 0\<rparr>
     wgpu_initial 3 3
     \<lparr>canvas = 50, buffer = 100, width = 2, height = 2, engine_type = ''sw'',
      surface = 0, gl_context = 0\<rparr> =
   (False,
    [CanvasSync 50, Free 100, Malloc 36],
    \<lparr>canvas = 50, buffer = 0, width = 3, height = 3, engine_type = ''sw'',
     surface = 0, gl_context = 0\<rparr>) \<and>
   size_engine \<lparr>canvas = 50, buffer = 0, width = 3, height = 3, engine_type = ''sw'',
                 surface = 0, gl_context = 0\<rparr> \<noteq>
   size_engine \<lparr>canvas = 50, buffer = 100, width = 2, height = 2, engine_type = ''sw'',
                 surface = 0, gl_context = 0\<rparr>"
  by (simp add: createCanvas_def resize_def engine_initial_def size_engine_def)

subsection \<open>Clearing and rendering\<close>

text \<open>
  Claim C8. \<^verbatim>\<open>clear()\<close> returns false exactly when the canvas member is null. In every
  case it leaves the recorded size, the buffer and the canvas member as they were.
\<close>

theorem clear_result:
  "(\<not> fst (clear s) \<longleftrightarrow> canvas s = 0) \<and>
   size_engine (snd (snd (clear s))) = size_engine s \<and>
   buffer (snd (snd (clear s))) = buffer s \<and>
   canvas (snd (snd (clear s))) = canvas s"
  by (simp add: clear_def)

lemma view_length_exact:
  fixes a b :: u32
  assumes "unat a * unat b * 4 < 2 ^ 32"
  shows "unat (a * b * 4) = unat a * unat b * 4"
proof -
  define p where "p = unat a * unat b"
  from assms have p4: "p * 4 < 2 ^ 32"
    by (simp add: p_def)
  then have p: "p < 2 ^ 32"
    by simp
  have "unat (a * b) = p mod 2 ^ 32"
    by (simp add: p_def unat_word_ariths)
  with p have ab: "unat (a * b) = p"
    by simp
  have "unat (a * b * 4) = (unat (a * b) * 4) mod 2 ^ 32"
    by (simp add: unat_word_ariths)
  with ab p4 have "unat (a * b * 4) = p * 4"
    by simp
  then show ?thesis
    by (simp add: p_def)
qed

text \<open>
  Claim C6. \<^verbatim>\<open>render()\<close> returns a memory view exactly when the recorded backend string is
  \<^verbatim>\<open>"sw"\<close> and the buffer is not null, and \<^verbatim>\<open>undefined\<close> otherwise. The view is over the
  buffer pointer and its length is \<^verbatim>\<open>width * height * 4\<close> as the code computes it, in
  32-bit unsigned arithmetic; that is the product of the numbers whenever this product
  fits in 32 bits. A manager that never created a target renders \<^verbatim>\<open>undefined\<close>, and so
  does a software target after a \<^verbatim>\<open>resize\<close> whose reallocation failed.
\<close>

theorem render_view:
  "(render s \<noteq> Undefined \<longleftrightarrow> engine_type s = ''sw'' \<and> buffer s \<noteq> 0) \<and>
   (engine_type s = ''sw'' \<and> buffer s \<noteq> 0 \<longrightarrow>
      render s = MemoryView (unat (width s * height s * 4)) (buffer s) \<and>
      (unat (width s) * unat (height s) * 4 < 2 ^ 32 \<longrightarrow>
         render s = MemoryView (unat (width s) * unat (height s) * 4) (buffer s))) \<and>
   render engine_initial = Undefined \<and>
   (sw_raster b \<and> canvas s \<noteq> 0 \<and> engine_type s = ''sw'' \<and>
    (w, ht) \<noteq> (width s, height s) \<and> malloc_ret h = 0 \<longrightarrow>
      render (snd (snd (resize b h g w ht s))) = Undefined)"
  using view_length_exact [of "width s" "height s"]
  by (auto simp: render_def engine_initial_def resize_def Let_def)

theorem render_view_witness:
  "engine_type \<lparr>canvas = 50, buffer = 100, width = 2, height = 2, engine_type = ''sw'',
      surface = 0, gl_context = 0\<rparr> = ''sw'' \<and>
   buffer \<lparr>canvas = 50, buffer = 100, width = 2, height = 2, engine_type = ''sw'',
      surface = 0, gl_context = 0\<rparr> \<noteq> 0 \<and>
   render \<lparr>canvas = 50, buffer = 100, width = 2, height = 2, engine_type = ''sw'',
      surface = 0, gl_context = 0\<rparr> = MemoryView 16 100 \<and>
   sw_raster \<lparr>sw_raster = True, gl_raster = True, wg_raster = True\<rparr> \<and>
   canvas \<lparr>canvas = 50, buffer = 100, width = 2, height = 2, engine_type = ''sw'',
      surface = 0, gl_context = 0\<rparr> \<noteq> 0 \<and>
   malloc_ret \<lparr>initializer_ok = True, canvas_gen = 50, malloc_ret = 0, webgl_context = 0,
      created_surface = 0\<rparr> = 0 \<and>
   render (snd (snd (resize \<lparr>sw_raster = True, gl_raster = True, wg_raster = True\<rparr>
     \<lparr>initializer_ok = True, canvas_gen = 50, malloc_ret = 0, webgl_context = 0,
      created_surface = 0\<rparr>
     wgpu_initial 3 3
     \<lparr>canvas = 50, buffer = 100, width = 2, height = 2, engine_type = ''sw'',
      surface = 0, gl_context = 0\<rparr>))) = Undefined"
  using render_view
    [of "\<lparr>canvas = 50, buffer = 100, width = 2, height = 2, engine_type = ''sw'',
      surface = 0, gl_context = 0\<rparr>"
        "\<lparr>sw_raster = True, gl_raster = True, wg_raster = True\<rparr>"
        3 3
        "\<lparr>initializer_ok = True, canvas_gen = 50, malloc_ret = 0, webgl_context = 0,
      created_surface = 0\<rparr>"
        wgpu_initial]
  by simp

end
